theory Spec2Isabelle
  imports Main
begin

section \<open>The CRUD layer of the user backend: specifications, filters, repository\<close>

text \<open>
  The development embeds \<^verbatim>\<open>app/crud/specification.py\<close>, \<^verbatim>\<open>app/crud/filter.py\<close>,
  \<^verbatim>\<open>app/crud/user.py\<close> and \<^verbatim>\<open>app/core/security/password.py\<close>. Exceptions are values of
  a sum type (\<open>Inl\<close> is a raised exception), the persistence session is an explicit state
  that every operation takes and returns, and the hashing context is a parameter.
\<close>

subsection \<open>Python values and exceptions\<close>

text \<open>\<^verbatim>\<open>Specification.value\<close> is annotated \<^verbatim>\<open>Any\<close>: the values a caller can store there.\<close>

datatype py_value = NoneV | IntV int | StrV string

text \<open>
  The exception classes the code raises or catches. \<^verbatim>\<open>NoResultFound\<close>,
  \<^verbatim>\<open>MultipleResultsFound\<close> and \<^verbatim>\<open>IntegrityError\<close> are subclasses of
  \<^verbatim>\<open>SQLAlchemyError\<close>, so they are kinds of the one constructor that an
  \<^verbatim>\<open>except SQLAlchemyError\<close> clause matches. The string is \<^verbatim>\<open>str(exc)\<close>.
\<close>

datatype sa_kind = DriverError | NoResultFound | MultipleResultsFound | IntegrityError

datatype py_error =
    SQLAlchemyError sa_kind string
  | ValueError string
  | ValidationError string
  | DatabaseException string

subsection \<open>The data model\<close>

text \<open>
  Modelled from the spec: \<^verbatim>\<open>app/schemas/gender.py\<close> is not among the sources; section 3
  of the specification gives the enumeration male, female, other.
\<close>

datatype Gender = MALE | FEMALE | OTHER

type_synonym date = "nat \<times> nat \<times> nat"
type_synonym datetime = nat

text \<open>
  The pydantic schemas \<^verbatim>\<open>UserCreate\<close> and \<^verbatim>\<open>UserSuperCreate\<close> of
  \<^verbatim>\<open>app/schemas/user.py\<close>. The second adds the field \<^verbatim>\<open>is_superuser\<close>; the value
  \<open>None\<close> of that field stands for a plain \<^verbatim>\<open>UserCreate\<close>, which has no such key in
  its \<^verbatim>\<open>dict()\<close>.
\<close>

record UserCreate =
  username :: string
  email :: string
  first_name :: string
  last_name :: string
  middle_name :: "string option"
  gender :: "Gender option"
  birthdate :: "date option"
  phone_number :: "string option"
  city :: "string option"
  country :: "string option"
  password :: string
  is_superuser :: "bool option"

text \<open>
  The ORM class \<^verbatim>\<open>User\<close> of \<^verbatim>\<open>app/models/user.py\<close>. Every column of an object built by
  \<^verbatim>\<open>User(**kwargs)\<close> that is not among the keyword arguments is \<^verbatim>\<open>None\<close> until the row
  is flushed, hence the options on \<open>id'\<close>, \<open>is_active\<close>, \<open>is_superuser\<close> and
  \<open>created_at\<close>.
\<close>

record User =
  id' :: "int option"
  username :: string
  email :: string
  first_name :: string
  middle_name :: "string option"
  last_name :: string
  password :: string
  gender :: "Gender option"
  birthdate :: "date option"
  phone_number :: "string option"
  city :: "string option"
  country :: "string option"
  is_active :: "bool option"
  is_superuser :: "bool option"
  created_at :: "datetime option"
  updated_at :: "datetime option"

subsection \<open>Specifications\<close>

text \<open>
  \<^verbatim>\<open>Specification.__init__\<close> stores its argument; the three subclasses only forward to
  it. The runtime class of the object is kept in \<open>cls\<close>. A constructor is a Python
  call and could raise, so its result is a sum; the bodies below are the source's: none
  of them inspects the argument.
\<close>

datatype spec_class = IdSpecification_class | EmailSpecification_class | UsernameSpecification_class

record Specification =
  cls :: spec_class
  "value" :: py_value

definition IdSpecification :: "py_value \<Rightarrow> py_error + Specification" where
  "IdSpecification obj_id = Inr \<lparr>cls = IdSpecification_class, value = obj_id\<rparr>"

definition EmailSpecification :: "py_value \<Rightarrow> py_error + Specification" where
  "EmailSpecification email_value = Inr \<lparr>cls = EmailSpecification_class, value = email_value\<rparr>"

definition UsernameSpecification :: "py_value \<Rightarrow> py_error + Specification" where
  "UsernameSpecification username_value =
     Inr \<lparr>cls = UsernameSpecification_class, value = username_value\<rparr>"

subsection \<open>The persistence session\<close>

text \<open>
  SQLAlchemy's \<^verbatim>\<open>AsyncSession\<close> is a collaborator, not code of the repository. Its state
  here is what the CRUD layer can observe (section 6 of the specification):
  \<^item> \<open>rows\<close>: the committed rows of the table \<^verbatim>\<open>users\<close>, in insertion order;
  \<^item> \<open>pending\<close>: the objects given to \<^verbatim>\<open>add\<close> and not yet committed;
  \<^item> \<open>serial\<close>: the next value of the primary-key sequence;
  \<^item> \<open>now\<close>: the server's clock, for the default of \<^verbatim>\<open>created_at\<close>;
  \<^item> \<open>faults\<close>: the failures of the driver: \<open>faults s n = Some msg\<close> makes the
    \<open>n\<close>-th call on the session (counted from 0) raise \<^verbatim>\<open>SQLAlchemyError(msg)\<close>;
  \<^item> \<open>calls\<close>: the calls made on the session so far, oldest first.
\<close>

datatype column = Username_column | Email_column

datatype select_stmt = Select_where column py_value

datatype db_call = Get py_value | Scalars select_stmt | Add User | Commit

record session =
  rows :: "User list"
  pending :: "User list"
  serial :: int
  now :: datetime
  faults :: "nat \<Rightarrow> string option"
  calls :: "db_call list"

definition record_call :: "session \<Rightarrow> db_call \<Rightarrow> session" where
  "record_call s c = s\<lparr>calls := calls s @ [c]\<rparr>"

definition fault_now :: "session \<Rightarrow> string option" where
  "fault_now s = faults s (length (calls s))"

text \<open>
  \<^verbatim>\<open>async with session\<close>: \<^verbatim>\<open>AsyncSession.__aenter__\<close> returns the session itself, and
  \<^verbatim>\<open>__aexit__\<close> closes it, which discards what is pending and leaves the table alone.
\<close>

definition session_close :: "session \<Rightarrow> session" where
  "session_close s = s\<lparr>pending := []\<rparr>"

text \<open>\<^verbatim>\<open>session.get(User, key)\<close>: the row with that primary key, or \<^verbatim>\<open>None\<close>.\<close>

definition has_id :: "py_value \<Rightarrow> User \<Rightarrow> bool" where
  "has_id k u = (case id' u of None \<Rightarrow> False | Some i \<Rightarrow> k = IntV i)"

definition session_get :: "session \<Rightarrow> py_value \<Rightarrow> (py_error + User option) \<times> session" where
  "session_get s k =
     (case fault_now s of
        Some msg \<Rightarrow> (Inl (SQLAlchemyError DriverError msg), record_call s (Get k))
      | None \<Rightarrow> (Inr (find (has_id k) (rows s)), record_call s (Get k)))"

subsection \<open>IndexFilter\<close>

text \<open>
  Modelled from the spec: \<^verbatim>\<open>app/core/decorators.py\<close> is not among the sources; the
  decorators \<^verbatim>\<open>with_logging\<close> and \<^verbatim>\<open>benchmark\<close> log and time the call and hand the
  result and every exception through, so a decorated function is its body. Log lines are
  not part of the state.

  \<^verbatim>\<open>IndexFilter.filter\<close> (\<open>key\<close> is the source's \<^verbatim>\<open>_id\<close>): \<^verbatim>\<open>db_obj\<close> starts as \<^verbatim>\<open>None\<close>; an \<^verbatim>\<open>SQLAlchemyError\<close> of the
  fetch is logged and \<^verbatim>\<open>db_obj\<close> is returned as it is. Any other exception leaves the
  function.
\<close>

definition IndexFilter_filter ::
  "Specification \<Rightarrow> session \<Rightarrow> (py_error + User option) \<times> session" where
  "IndexFilter_filter spec s =
     (let key = value spec;
          db_obj = None
      in case session_get s key of
           (Inr r, s') \<Rightarrow> (Inr r, session_close s')
         | (Inl (SQLAlchemyError k msg), s') \<Rightarrow> (Inr db_obj, session_close s')
         | (Inl e, s') \<Rightarrow> (Inl e, session_close s'))"

subsection \<open>UniqueFilter\<close>

text \<open>
  \<^verbatim>\<open>select(User).where(User.<column> == v)\<close> run by \<^verbatim>\<open>session.scalars\<close>, and
  \<^verbatim>\<open>ScalarResult.one()\<close>, which raises \<^verbatim>\<open>NoResultFound\<close> on no row and
  \<^verbatim>\<open>MultipleResultsFound\<close> on more than one.
\<close>

definition column_value :: "column \<Rightarrow> User \<Rightarrow> py_value" where
  "column_value c u = (case c of Username_column \<Rightarrow> StrV (username u) | Email_column \<Rightarrow> StrV (email u))"

fun matches :: "select_stmt \<Rightarrow> User \<Rightarrow> bool" where
  "matches (Select_where c v) u = (column_value c u = v)"

definition session_scalars :: "session \<Rightarrow> select_stmt \<Rightarrow> (py_error + User list) \<times> session" where
  "session_scalars s stmt =
     (case fault_now s of
        Some msg \<Rightarrow> (Inl (SQLAlchemyError DriverError msg), record_call s (Scalars stmt))
      | None \<Rightarrow> (Inr (filter (matches stmt) (rows s)), record_call s (Scalars stmt)))"

fun one :: "'a list \<Rightarrow> py_error + 'a" where
  "one [] = Inl (SQLAlchemyError NoResultFound ''No row was found when one was required'')"
| "one [x] = Inr x"
| "one (x # y # zs) =
     Inl (SQLAlchemyError MultipleResultsFound
            ''Multiple rows were found when exactly one was required'')"

text \<open>Every row of the table \<^verbatim>\<open>users\<close> is loaded as a \<^verbatim>\<open>User\<close>.\<close>

definition isinstance_User :: "User \<Rightarrow> bool" where
  "isinstance_User db_obj = True"

text \<open>
  \<^verbatim>\<open>UniqueFilter.filter\<close>. The statement is chosen from \<^verbatim>\<open>field\<close> alone, before the
  session is entered; an \<^verbatim>\<open>SQLAlchemyError\<close> is logged and raised again, so every
  exception of the body leaves the function as it is.
\<close>

definition UniqueFilter_filter ::
  "Specification \<Rightarrow> session \<Rightarrow> string \<Rightarrow> (py_error + User) \<times> session" where
  "UniqueFilter_filter spec s field =
     (case (if field = ''username'' then Inr (Select_where Username_column (value spec))
            else if field = ''email'' then Inr (Select_where Email_column (value spec))
            else Inl (ValueError ''Invalid field specified for filtering'')) of
        Inl e \<Rightarrow> (Inl e, s)
      | Inr stmt \<Rightarrow>
          (case session_scalars s stmt of
             (Inl e, s') \<Rightarrow> (Inl e, session_close s')
           | (Inr result, s') \<Rightarrow>
               (case one result of
                  Inl e \<Rightarrow> (Inl e, session_close s')
                | Inr db_obj \<Rightarrow>
                    if \<not> isinstance_User db_obj
                    then (Inl (ValueError ''Retrieved object is not a User instance''),
                          session_close s')
                    else (Inr db_obj, session_close s'))))"

text \<open>The call without \<^verbatim>\<open>field\<close>: the parameter's default is \<^verbatim>\<open>"email"\<close>.\<close>

definition UniqueFilter_filter_default ::
  "Specification \<Rightarrow> session \<Rightarrow> (py_error + User) \<times> session" where
  "UniqueFilter_filter_default spec s = UniqueFilter_filter spec s ''email''"

subsection \<open>Password hashing\<close>

text \<open>
  passlib's \<^verbatim>\<open>CryptContext\<close> is a collaborator: its two methods are parameters.
  \<open>verify c plain hashed\<close> has the argument order of \<^verbatim>\<open>crypt_context.verify\<close>.
\<close>

record CryptContext =
  hash :: "string \<Rightarrow> py_error + string"
  verify :: "string \<Rightarrow> string \<Rightarrow> py_error + bool"

definition get_password_hash :: "CryptContext \<Rightarrow> string \<Rightarrow> py_error + string" where
  "get_password_hash crypt_context pw =
     (if pw = [] then Inl (ValueError ''Password cannot be empty or None'')
      else hash crypt_context pw)"

definition verify_password :: "CryptContext \<Rightarrow> string \<Rightarrow> string \<Rightarrow> py_error + bool" where
  "verify_password crypt_context hashed_password plain_password =
     (if plain_password = [] then Inl (ValueError ''Plain password cannot be empty or None'')
      else if hashed_password = [] then Inl (ValueError ''Hashed password cannot be empty or None'')
      else verify crypt_context plain_password hashed_password)"

subsection \<open>Inserting\<close>

text \<open>\<^verbatim>\<open>User(**user_in.dict())\<close>: the keys of the schema become the columns of the object.\<close>

definition User_init :: "UserCreate \<Rightarrow> User" where
  "User_init d =
     \<lparr>id' = None,
      username = UserCreate.username d,
      email = UserCreate.email d,
      first_name = UserCreate.first_name d,
      middle_name = UserCreate.middle_name d,
      last_name = UserCreate.last_name d,
      password = UserCreate.password d,
      gender = UserCreate.gender d,
      birthdate = UserCreate.birthdate d,
      phone_number = UserCreate.phone_number d,
      city = UserCreate.city d,
      country = UserCreate.country d,
      is_active = None,
      is_superuser = UserCreate.is_superuser d,
      created_at = None,
      updated_at = None\<rparr>"

definition session_add :: "session \<Rightarrow> User \<Rightarrow> (py_error + unit) \<times> session" where
  "session_add s obj =
     (case fault_now s of
        Some msg \<Rightarrow> (Inl (SQLAlchemyError DriverError msg), record_call s (Add obj))
      | None \<Rightarrow> (Inr (), (record_call s (Add obj))\<lparr>pending := pending s @ [obj]\<rparr>))"

text \<open>
  A flush gives a row its primary key from the sequence and the defaults the table
  declares (\<^verbatim>\<open>is_active\<close> true, \<^verbatim>\<open>is_superuser\<close> false, \<^verbatim>\<open>created_at\<close>), and the server
  rejects a row that breaks a \<^verbatim>\<open>unique=True\<close> of \<^verbatim>\<open>id\<close>, \<^verbatim>\<open>username\<close> or \<^verbatim>\<open>email\<close>.
  The \<^verbatim>\<open>CHECK\<close> constraints of the table are not evaluated: a rejection by one of them is
  a failure of the commit, which the fault schedule provides.
\<close>

definition insert_defaults :: "int \<Rightarrow> datetime \<Rightarrow> User \<Rightarrow> User" where
  "insert_defaults ser t u =
     u\<lparr>id' := Some (case id' u of None \<Rightarrow> ser | Some i \<Rightarrow> i),
       is_active := Some (case is_active u of None \<Rightarrow> True | Some b \<Rightarrow> b),
       is_superuser := Some (case is_superuser u of None \<Rightarrow> False | Some b \<Rightarrow> b),
       created_at := Some (case created_at u of None \<Rightarrow> t | Some c \<Rightarrow> c)\<rparr>"

definition violates_unique :: "User list \<Rightarrow> User \<Rightarrow> bool" where
  "violates_unique tbl u =
     (\<exists>r \<in> set tbl. id' r = id' u \<or> username r = username u \<or> email r = email u)"

fun flush :: "User list \<Rightarrow> User list \<Rightarrow> int \<Rightarrow> datetime \<Rightarrow> py_error + (User list \<times> User list \<times> int)" where
  "flush [] tbl ser t = Inr (tbl, [], ser)"
| "flush (u # us) tbl ser t =
     (let r = insert_defaults ser t u in
      if violates_unique tbl r
      then Inl (SQLAlchemyError IntegrityError ''duplicate key value violates unique constraint'')
      else (case flush us (tbl @ [r]) (ser + 1) t of
              Inl e \<Rightarrow> Inl e
            | Inr (tbl', flushed, ser') \<Rightarrow> Inr (tbl', r # flushed, ser')))"

text \<open>
  \<^verbatim>\<open>session.commit()\<close> flushes what is pending. The objects are updated in place by
  the flush; the model returns them, in the order they were added. A failed commit leaves
  the table as it was.
\<close>

definition session_commit :: "session \<Rightarrow> (py_error + User list) \<times> session" where
  "session_commit s =
     (case fault_now s of
        Some msg \<Rightarrow> (Inl (SQLAlchemyError DriverError msg), record_call s Commit)
      | None \<Rightarrow>
          (case flush (pending s) (rows s) (serial s) (now s) of
             Inl e \<Rightarrow> (Inl e, record_call s Commit)
           | Inr (tbl, flushed, ser) \<Rightarrow>
               (Inr flushed, (record_call s Commit)\<lparr>rows := tbl, pending := [], serial := ser\<rparr>)))"

text \<open>The object \<open>obj\<close> after a commit that flushed it last.\<close>

definition refreshed :: "User list \<Rightarrow> User \<Rightarrow> User" where
  "refreshed flushed obj = (case rev flushed of [] \<Rightarrow> obj | r # rs \<Rightarrow> r)"

definition id_value :: "User \<Rightarrow> py_value" where
  "id_value u = (case id' u of None \<Rightarrow> NoneV | Some i \<Rightarrow> IntV i)"

subsection \<open>UserRepository\<close>

text \<open>
  Modelled from the spec: \<^verbatim>\<open>app/core/security/exception.py\<close> is not among the sources;
  \<^verbatim>\<open>DatabaseException\<close> is an exception that carries its message. The clause
  \<^verbatim>\<open>except SQLAlchemyError as e: raise DatabaseException(str(e))\<close> is:
\<close>

definition as_DatabaseException :: "py_error \<Rightarrow> py_error" where
  "as_DatabaseException e = (case e of SQLAlchemyError k msg \<Rightarrow> DatabaseException msg | _ \<Rightarrow> e)"

text \<open>
  \<open>self\<close> is its session: the two filters carry no state and \<^verbatim>\<open>self.model\<close> is
  \<^verbatim>\<open>User\<close>.
\<close>

definition read_by_id :: "session \<Rightarrow> Specification \<Rightarrow> (py_error + User option) \<times> session" where
  "read_by_id self_session spec =
     (case IndexFilter_filter spec self_session of
        (Inl e, s') \<Rightarrow> (Inl (as_DatabaseException e), session_close s')
      | (Inr user, s') \<Rightarrow> (Inr user, session_close s'))"

text \<open>
  \<^verbatim>\<open>create_user\<close>. The hash is computed first; \<^verbatim>\<open>user.copy(update=...)\<close> replaces the
  password; the object is added and committed inside the \<^verbatim>\<open>try\<close>; the re-read and the
  test for \<^verbatim>\<open>None\<close> are outside it.
\<close>

definition create_user :: "CryptContext \<Rightarrow> session \<Rightarrow> UserCreate \<Rightarrow> (py_error + User) \<times> session" where
  "create_user crypt_context self_session user =
     (case get_password_hash crypt_context (UserCreate.password user) of
        Inl e \<Rightarrow> (Inl e, self_session)
      | Inr hashed_password \<Rightarrow>
          (let user_in = user\<lparr>UserCreate.password := hashed_password\<rparr>;
               user_create = User_init user_in
           in case session_add self_session user_create of
                (Inl e, s1) \<Rightarrow> (Inl (as_DatabaseException e), session_close s1)
              | (Inr u, s1) \<Rightarrow>
                  (case session_commit s1 of
                     (Inl e, s2) \<Rightarrow> (Inl (as_DatabaseException e), session_close s2)
                   | (Inr flushed, s2) \<Rightarrow>
                       (case IdSpecification (id_value (refreshed flushed user_create)) of
                          Inl e \<Rightarrow> (Inl e, session_close s2)
                        | Inr spec \<Rightarrow>
                            (case read_by_id s2 spec of
                               (Inl e, s3) \<Rightarrow> (Inl e, session_close s3)
                             | (Inr None, s3) \<Rightarrow>
                                 (Inl (DatabaseException ''User could not be created.''),
                                  session_close s3)
                             | (Inr (Some created_user), s3) \<Rightarrow>
                                 (Inr created_user, session_close s3))))))"

subsection \<open>Concrete inputs\<close>

text \<open>
  A stored user, storages with and without it, a driver that fails on a given call, and
  a toy hashing context whose hashes have the 60 characters of a bcrypt hash.
\<close>

definition no_faults :: "nat \<Rightarrow> string option" where
  "no_faults n = None"

definition fault_at :: "nat \<Rightarrow> nat \<Rightarrow> string option" where
  "fault_at k n = (if n = k then Some ''connection lost'' else None)"

definition bob :: User where
  "bob = \<lparr>id' = Some 1, username = ''bob0001'', email = ''bob@example.com'',
          first_name = ''Bob'', middle_name = None, last_name = ''Roe'',
          password = ''$2b$12$'' @ replicate 53 CHR ''x'', gender = None, birthdate = None,
          phone_number = None, city = Some ''Guayaquil'', country = Some ''Ecuador'',
          is_active = Some True, is_superuser = Some False, created_at = Some 0,
          updated_at = None\<rparr>"

definition empty_storage :: session where
  "empty_storage = \<lparr>rows = [], pending = [], serial = 1, now = 0, faults = no_faults, calls = []\<rparr>"

definition bob_storage :: session where
  "bob_storage = \<lparr>rows = [bob], pending = [], serial = 2, now = 0, faults = no_faults, calls = []\<rparr>"

definition alice :: UserCreate where
  "alice = \<lparr>UserCreate.username = ''alice01'', UserCreate.email = ''alice@example.com'',
            UserCreate.first_name = ''Alice'', UserCreate.last_name = ''Doe'',
            UserCreate.middle_name = None, UserCreate.gender = None,
            UserCreate.birthdate = None, UserCreate.phone_number = None,
            UserCreate.city = Some ''Guayaquil'', UserCreate.country = Some ''Ecuador'',
            UserCreate.password = ''Valid$Pass1'', UserCreate.is_superuser = None\<rparr>"

definition toy_hash :: "string \<Rightarrow> string" where
  "toy_hash p = take 60 (''$2b$12$'' @ p @ replicate 60 CHR ''.'')"

definition toy_context :: CryptContext where
  "toy_context = \<lparr>hash = (\<lambda>p. Inr (toy_hash p)), verify = (\<lambda>p h. Inr (h = toy_hash p))\<rparr>"

definition bob_twin :: User where
  "bob_twin = bob\<lparr>id' := Some 2, username := ''bob0002''\<rparr>"

definition twin_storage :: session where
  "twin_storage = \<lparr>rows = [bob, bob_twin], pending = [], serial = 3, now = 0,
                    faults = no_faults, calls = []\<rparr>"

definition flaky_storage :: session where
  "flaky_storage = empty_storage\<lparr>faults := fault_at 2\<rparr>"

definition alice_row :: User where
  "alice_row = \<lparr>id' = None, username = ''alice01'', email = ''alice@example.com'',
          first_name = ''Alice'', middle_name = None, last_name = ''Doe'',
          password = toy_hash ''Valid$Pass1'', gender = None, birthdate = None,
          phone_number = None, city = Some ''Guayaquil'', country = Some ''Ecuador'',
          is_active = None, is_superuser = None, created_at = None, updated_at = None\<rparr>"

definition alice_stored :: User where
  "alice_stored = alice_row\<lparr>id' := Some 1, is_active := Some True,
                            is_superuser := Some False, created_at := Some 0\<rparr>"

subsection \<open>Predicates of the statements\<close>

text \<open>
  The rows that satisfy \<^verbatim>\<open><field> = value\<close>, for the two field names
  \<open>UniqueFilter_filter\<close> accepts.
\<close>

definition rows_matching :: "string \<Rightarrow> py_value \<Rightarrow> session \<Rightarrow> User list" where
  "rows_matching field v s =
     filter (\<lambda>u. (if field = ''username'' then StrV (username u) else StrV (email u)) = v) (rows s)"

text \<open>
  What \<open>create_user\<close> needs of a bcrypt context: a hash has 60 characters, and
  \<open>verify\<close> accepts a password against its own hash.
\<close>

definition bcrypt_contract :: "CryptContext \<Rightarrow> bool" where
  "bcrypt_contract c = (\<forall>p h. hash c p = Inr h \<longrightarrow> length h = 60 \<and> verify c p h = Inr True)"

text \<open>
  The length bounds that \<^verbatim>\<open>UserCreate\<close> declares for \<^verbatim>\<open>username\<close> and \<^verbatim>\<open>password\<close>.
  The schema also checks the password and the phone number against regular expressions
  of the settings and the email address against \<^verbatim>\<open>EmailStr\<close>; those checks only narrow
  the inputs further.
\<close>

definition UserCreate_valid :: "UserCreate \<Rightarrow> bool" where
  "UserCreate_valid u =
     (4 \<le> length (UserCreate.username u) \<and> length (UserCreate.username u) \<le> 15
      \<and> 8 \<le> length (UserCreate.password u) \<and> length (UserCreate.password u) \<le> 14)"

section \<open>Lemmas\<close>

subsection \<open>Lemmas on the key fetch\<close>

lemma find_None_no_id:
  "Some i \<notin> id' ` set xs \<Longrightarrow> find (has_id (IntV i)) xs = None"
  by (induction xs) (auto simp: has_id_def split: option.splits)

lemma IndexFilter_filter_eq:
  "IndexFilter_filter spec s =
     (Inr (case fault_now s of None \<Rightarrow> find (has_id (value spec)) (rows s) | Some msg \<Rightarrow> None),
      session_close (record_call s (Get (value spec))))"
  by (cases "fault_now s") (simp_all add: IndexFilter_filter_def session_get_def Let_def)

lemma read_by_id_eq:
  "read_by_id s spec =
     (Inr (case fault_now s of None \<Rightarrow> find (has_id (value spec)) (rows s) | Some msg \<Rightarrow> None),
      session_close (session_close (record_call s (Get (value spec)))))"
  by (simp add: read_by_id_def IndexFilter_filter_eq)

subsection \<open>Lemmas on the session and the filters\<close>

lemma calls_session_close: "calls (session_close s) = calls s"
  by (simp add: session_close_def)

lemma calls_read_by_id: "calls (snd (read_by_id s spec)) = calls s @ [Get (value spec)]"
  by (simp add: read_by_id_eq session_close_def record_call_def)

lemma calls_session_add: "calls (snd (session_add s obj)) = calls s @ [Add obj]"
  by (cases "fault_now s") (simp_all add: session_add_def record_call_def)

lemma calls_session_commit: "calls (snd (session_commit s)) = calls s @ [Commit]"
  by (cases "fault_now s"; cases "flush (pending s) (rows s) (serial s) (now s)")
     (auto simp: session_commit_def record_call_def)

lemma session_add_Inr:
  "session_add s obj = (Inr x, s1) \<Longrightarrow>
     fault_now s = None \<and> s1 = (record_call s (Add obj))\<lparr>pending := pending s @ [obj]\<rparr>"
  by (cases "fault_now s") (auto simp: session_add_def)

lemma session_commit_Inr:
  "session_commit s1 = (Inr flushed, s2) \<Longrightarrow>
     \<exists>tbl ser. flush (pending s1) (rows s1) (serial s1) (now s1) = Inr (tbl, flushed, ser)
       \<and> s2 = (record_call s1 Commit)\<lparr>rows := tbl, pending := [], serial := ser\<rparr>"
  by (cases "fault_now s1"; cases "flush (pending s1) (rows s1) (serial s1) (now s1)")
     (auto simp: session_commit_def)

lemma matches_filter:
  "filter (matches (Select_where Username_column v)) xs = filter (\<lambda>u. StrV (username u) = v) xs"
  "filter (matches (Select_where Email_column v)) xs = filter (\<lambda>u. StrV (email u) = v) xs"
  by (rule filter_cong; simp add: column_value_def)+

lemma one_Inr_iff: "one xs = Inr x \<longleftrightarrow> xs = [x]"
  by (cases xs rule: one.cases) simp_all

lemma one_isl: "length xs \<noteq> 1 \<Longrightarrow> isl (one xs)"
  by (cases xs rule: one.cases) simp_all

lemma UniqueFilter_filter_valid_eq:
  assumes "field = ''username'' \<or> field = ''email''"
  shows "UniqueFilter_filter spec s field =
     ((case fault_now s of
         Some msg \<Rightarrow> Inl (SQLAlchemyError DriverError msg)
       | None \<Rightarrow> one (rows_matching field (value spec) s)),
      session_close (record_call s (Scalars (Select_where
         (if field = ''username'' then Username_column else Email_column) (value spec)))))"
  using assms
  by (cases "fault_now s"; cases "one (rows_matching field (value spec) s)")
     (auto simp: UniqueFilter_filter_def session_scalars_def rows_matching_def matches_filter
        isinstance_User_def)

subsection \<open>Lemmas on the insert\<close>

text \<open>
  A successful flush of a list that ends in \<open>u\<close> appends the flushed \<open>u\<close> to the table,
  and no earlier row has its key.
\<close>

lemma flush_snoc:
  "flush (us @ [u]) tbl ser t = Inr (tbl', fl, ser') \<Longrightarrow>
     \<exists>tbl0 ser0 fl0. fl = fl0 @ [insert_defaults ser0 t u]
        \<and> tbl' = tbl0 @ [insert_defaults ser0 t u]
        \<and> \<not> violates_unique tbl0 (insert_defaults ser0 t u)"
proof (induction us arbitrary: tbl ser tbl' fl ser')
  case Nil
  then show ?case
    by (auto simp: Let_def split: if_splits)
next
  case (Cons a us)
  let ?r = "insert_defaults ser t a"
  from Cons.prems obtain fl1 where
    rec: "flush (us @ [u]) (tbl @ [?r]) (ser + 1) t = Inr (tbl', fl1, ser')" and fl: "fl = ?r # fl1"
    by (auto simp: Let_def split: if_splits sum.splits)
  from Cons.IH [OF rec] obtain tbl0 ser0 fl0 where
    "fl1 = fl0 @ [insert_defaults ser0 t u]" "tbl' = tbl0 @ [insert_defaults ser0 t u]"
    "\<not> violates_unique tbl0 (insert_defaults ser0 t u)" by blast
  with fl show ?case by (intro exI [of _ tbl0] exI [of _ ser0] exI [of _ "?r # fl0"]) simp
qed

lemma refreshed_snoc: "refreshed (fl0 @ [r]) obj = r"
  by (simp add: refreshed_def)

lemma find_snoc_fresh:
  "\<not> violates_unique tbl0 r \<Longrightarrow> id' r = Some i \<Longrightarrow> find (has_id (IntV i)) (tbl0 @ [r]) = Some r"
  by (induction tbl0) (auto simp: violates_unique_def has_id_def split: option.splits)

lemma id_insert_defaults: "\<exists>i. id' (insert_defaults ser t u) = Some i"
  by (simp add: insert_defaults_def)

text \<open>
  What \<open>create_user\<close> returns is the row it built, with the key and the defaults of the
  flush: the re-read finds that row and no other.
\<close>

lemma create_user_returns_inserted:
  assumes "create_user cc s user = (Inr created, s')"
  shows "\<exists>h ser0. get_password_hash cc (UserCreate.password user) = Inr h
           \<and> created = insert_defaults ser0 (now s) (User_init (user\<lparr>UserCreate.password := h\<rparr>))"
proof -
  from assms obtain h where h: "get_password_hash cc (UserCreate.password user) = Inr h"
    by (auto simp: create_user_def split: sum.splits)
  let ?obj = "User_init (user\<lparr>UserCreate.password := h\<rparr>)"
  from assms h obtain x s1 where add: "session_add s ?obj = (Inr x, s1)"
    by (auto simp: create_user_def Let_def split: sum.splits prod.splits)
  from assms h add obtain flushed s2 where commit: "session_commit s1 = (Inr flushed, s2)"
    by (auto simp: create_user_def Let_def split: sum.splits prod.splits)
  from session_add_Inr [OF add] have s1: "pending s1 = pending s @ [?obj]" "now s1 = now s"
    by (simp_all add: record_call_def)
  from session_commit_Inr [OF commit] obtain tbl ser where
    fl: "flush (pending s1) (rows s1) (serial s1) (now s1) = Inr (tbl, flushed, ser)"
    and s2: "s2 = (record_call s1 Commit)\<lparr>rows := tbl, pending := [], serial := ser\<rparr>" by blast
  from flush_snoc [OF fl [unfolded s1]] obtain tbl0 ser0 fl0 where
    parts: "flushed = fl0 @ [insert_defaults ser0 (now s) ?obj]"
      "tbl = tbl0 @ [insert_defaults ser0 (now s) ?obj]"
      "\<not> violates_unique tbl0 (insert_defaults ser0 (now s) ?obj)" by blast
  let ?r = "insert_defaults ser0 (now s) ?obj"
  obtain i where i: "id' ?r = Some i" using id_insert_defaults by blast
  have spec: "IdSpecification (id_value (refreshed flushed ?obj))
                = Inr \<lparr>cls = IdSpecification_class, value = IntV i\<rparr>"
    by (simp add: parts(1) refreshed_snoc id_value_def i IdSpecification_def)
  have found: "find (has_id (IntV i)) (rows s2) = Some ?r"
    using find_snoc_fresh [OF parts(3) i] by (simp add: s2 parts(2))
  have "fst (read_by_id s2 \<lparr>cls = IdSpecification_class, value = IntV i\<rparr>)
          = Inr (case fault_now s2 of None \<Rightarrow> Some ?r | Some msg \<Rightarrow> None)"
    by (cases "fault_now s2") (simp_all add: read_by_id_eq found)
  with assms h add commit spec have "created = ?r"
    by (cases "fault_now s2")
       (auto simp: create_user_def Let_def split: prod.splits sum.splits option.splits)
  with h show ?thesis by blast
qed



text \<open>The calls \<open>create_user\<close> makes on the session once the password is hashed.\<close>

lemma calls_create_user:
  assumes "get_password_hash cc (UserCreate.password user) = Inr h"
  shows "calls (snd (create_user cc s user)) =
     calls s @ Add (User_init (user\<lparr>UserCreate.password := h\<rparr>)) #
       (case fst (session_add s (User_init (user\<lparr>UserCreate.password := h\<rparr>))) of
          Inl e \<Rightarrow> []
        | Inr x \<Rightarrow>
            Commit #
            (case fst (session_commit (snd (session_add s (User_init (user\<lparr>UserCreate.password := h\<rparr>))))) of
               Inl e \<Rightarrow> []
             | Inr flushed \<Rightarrow>
                 [Get (id_value (refreshed flushed (User_init (user\<lparr>UserCreate.password := h\<rparr>))))]))"
proof -
  let ?obj = "User_init (user\<lparr>UserCreate.password := h\<rparr>)"
  obtain r1 s1 where add: "session_add s ?obj = (r1, s1)" by (cases "session_add s ?obj")
  obtain r2 s2 where commit: "session_commit s1 = (r2, s2)" by (cases "session_commit s1")
  from calls_session_add [of s ?obj] add have c1: "calls s1 = calls s @ [Add ?obj]" by simp
  from calls_session_commit [of s1] commit have c2: "calls s2 = calls s1 @ [Commit]" by simp
  show ?thesis
  proof (cases r1)
    case (Inl e)
    with add c1 assms show ?thesis
      by (simp add: create_user_def Let_def calls_session_close)
  next
    case r1: (Inr x)
    show ?thesis
    proof (cases r2)
      case (Inl e)
      with r1 add commit c1 c2 assms show ?thesis
        by (simp add: create_user_def Let_def calls_session_close)
    next
      case (Inr flushed)
      let ?spec = "\<lparr>cls = IdSpecification_class, value = id_value (refreshed flushed ?obj)\<rparr>"
      obtain r3 s3 where rd: "read_by_id s2 ?spec = (r3, s3)" by (cases "read_by_id s2 ?spec")
      from calls_read_by_id [of s2 ?spec] rd
      have c3: "calls s3 = calls s2 @ [Get (id_value (refreshed flushed ?obj))]" by simp
      from Inr r1 add commit rd c1 c2 c3 assms show ?thesis
        by (simp add: create_user_def Let_def calls_session_close IdSpecification_def
            split: sum.splits option.splits)
    qed
  qed
qed

subsection \<open>The concrete runs\<close>

lemma hash_alice:
  "get_password_hash toy_context (UserCreate.password alice) = Inr (toy_hash ''Valid$Pass1'')"
  by (simp add: get_password_hash_def toy_context_def alice_def)

lemma init_alice: "User_init (alice\<lparr>UserCreate.password := toy_hash ''Valid$Pass1''\<rparr>) = alice_row"
  by (simp add: User_init_def alice_def alice_row_def)

lemma create_user_alice:
  "create_user toy_context empty_storage alice =
     (Inr alice_stored,
      \<lparr>rows = [alice_stored], pending = [], serial = 2, now = 0,
       faults = no_faults, calls = [Add alice_row, Commit, Get (IntV 1)]\<rparr>)"
  by (simp add: create_user_def hash_alice init_alice Let_def session_add_def session_commit_def
      fault_now_def empty_storage_def no_faults_def record_call_def insert_defaults_def
      violates_unique_def refreshed_def id_value_def IdSpecification_def read_by_id_eq
      session_close_def has_id_def alice_row_def alice_stored_def)

lemma bcrypt_contract_toy: "bcrypt_contract toy_context"
  by (auto simp: bcrypt_contract_def toy_context_def toy_hash_def)

section \<open>The claims\<close>

subsection \<open>C1: a failing lookup in read_by_id\<close>

text \<open>
  C1: a failure of the lookup is not turned into a \<open>DatabaseException\<close> by
  \<open>read_by_id\<close>. On a storage that holds the row with id 1 and whose driver fails on the
  fetch, \<open>IndexFilter_filter\<close> returns \<open>None\<close>, and so does \<open>read_by_id\<close>: the handler of
  \<open>read_by_id\<close> never sees the failure.
\<close>

theorem read_by_id_lookup_failure_returns_None:
  "fst (session_get (bob_storage\<lparr>faults := fault_at 0\<rparr>) (IntV 1))
     = Inl (SQLAlchemyError DriverError ''connection lost'')
   \<and> fst (IndexFilter_filter \<lparr>cls = IdSpecification_class, value = IntV 1\<rparr>
            (bob_storage\<lparr>faults := fault_at 0\<rparr>)) = Inr None
   \<and> fst (read_by_id (bob_storage\<lparr>faults := fault_at 0\<rparr>)
            \<lparr>cls = IdSpecification_class, value = IntV 1\<rparr>) = Inr None
   \<and> fst (read_by_id bob_storage \<lparr>cls = IdSpecification_class, value = IntV 1\<rparr>) = Inr (Some bob)"
  by (simp add: read_by_id_eq IndexFilter_filter_eq session_get_def fault_now_def
      bob_storage_def fault_at_def no_faults_def has_id_def bob_def)

subsection \<open>C2: exactly one row in UniqueFilter\<close>

text \<open>
  C2: with a valid field, \<open>UniqueFilter_filter\<close> raises whenever the number of rows
  whose field equals the value of the specification is not one, and a row it returns is
  the only row that matches.
\<close>

theorem UniqueFilter_filter_exactly_one:
  assumes "field = ''username'' \<or> field = ''email''"
  shows "(length (rows_matching field (value spec) s) \<noteq> 1
            \<longrightarrow> isl (fst (UniqueFilter_filter spec s field)))
       \<and> (\<forall>u. fst (UniqueFilter_filter spec s field) = Inr u
            \<longrightarrow> rows_matching field (value spec) s = [u])"
  unfolding UniqueFilter_filter_valid_eq [OF assms]
  by (cases "fault_now s") (simp_all add: one_Inr_iff one_isl)

theorem UniqueFilter_filter_exactly_one_witness:
  "length (rows_matching ''email'' (StrV ''bob@example.com'') twin_storage) = 2
   \<and> isl (fst (UniqueFilter_filter \<lparr>cls = EmailSpecification_class, value = StrV ''bob@example.com''\<rparr>
                 twin_storage ''email''))
   \<and> length (rows_matching ''email'' (StrV ''nobody@example.com'') bob_storage) = 0
   \<and> isl (fst (UniqueFilter_filter \<lparr>cls = EmailSpecification_class, value = StrV ''nobody@example.com''\<rparr>
                 bob_storage ''email''))
   \<and> fst (UniqueFilter_filter \<lparr>cls = UsernameSpecification_class, value = StrV ''bob0001''\<rparr>
             bob_storage ''username'') = Inr bob
   \<and> rows_matching ''username'' (StrV ''bob0001'') bob_storage = [bob]"
proof -
  have two: "length (rows_matching ''email'' (StrV ''bob@example.com'') twin_storage) = 2"
    by (simp add: rows_matching_def twin_storage_def bob_twin_def bob_def)
  have zero: "length (rows_matching ''email'' (StrV ''nobody@example.com'') bob_storage) = 0"
    by (simp add: rows_matching_def bob_storage_def bob_def)
  have found: "fst (UniqueFilter_filter \<lparr>cls = UsernameSpecification_class, value = StrV ''bob0001''\<rparr>
                     bob_storage ''username'') = Inr bob"
    by (simp add: UniqueFilter_filter_def session_scalars_def fault_now_def bob_storage_def
        no_faults_def column_value_def bob_def isinstance_User_def)
  from UniqueFilter_filter_exactly_one
         [of "''email''" "\<lparr>cls = EmailSpecification_class, value = StrV ''bob@example.com''\<rparr>"
             twin_storage] two
  have a: "isl (fst (UniqueFilter_filter \<lparr>cls = EmailSpecification_class, value = StrV ''bob@example.com''\<rparr>
                 twin_storage ''email''))" by simp
  from UniqueFilter_filter_exactly_one
         [of "''email''" "\<lparr>cls = EmailSpecification_class, value = StrV ''nobody@example.com''\<rparr>"
             bob_storage] zero
  have b: "isl (fst (UniqueFilter_filter \<lparr>cls = EmailSpecification_class, value = StrV ''nobody@example.com''\<rparr>
                 bob_storage ''email''))" by simp
  from UniqueFilter_filter_exactly_one
         [of "''username''" "\<lparr>cls = UsernameSpecification_class, value = StrV ''bob0001''\<rparr>"
             bob_storage] found
  have c: "rows_matching ''username'' (StrV ''bob0001'') bob_storage = [bob]" by simp
  from two a zero b found c show ?thesis by simp
qed

subsection \<open>C3: read_by_id of an absent id\<close>

text \<open>
  C3: for every positive integer id that no stored row has, \<open>read_by_id\<close> of the
  specification built from that id returns \<open>None\<close> and raises nothing, whatever the driver
  does.
\<close>

theorem read_by_id_absent_returns_None:
  assumes "0 < i" and "Some i \<notin> id' ` set (rows s)"
    and "IdSpecification (IntV i) = Inr spec"
  shows "fst (read_by_id s spec) = Inr None"
proof -
  from assms(3) have v: "value spec = IntV i"
    by (auto simp: IdSpecification_def)
  from assms(2) have "find (has_id (IntV i)) (rows s) = None"
    by (rule find_None_no_id)
  with v show ?thesis
    by (simp add: read_by_id_eq split: option.splits)
qed

text \<open>Witness of C3: the id 999999 on a storage that holds only the row with id 1.\<close>

theorem read_by_id_absent_returns_None_witness:
  "(0::int) < 999999 \<and> Some 999999 \<notin> id' ` set (rows bob_storage)
   \<and> IdSpecification (IntV 999999) = Inr \<lparr>cls = IdSpecification_class, value = IntV 999999\<rparr>
   \<and> fst (read_by_id bob_storage \<lparr>cls = IdSpecification_class, value = IntV 999999\<rparr>) = Inr None"
proof -
  have a: "(0::int) < 999999" by simp
  have b: "Some 999999 \<notin> id' ` set (rows bob_storage)"
    by (simp add: bob_storage_def bob_def)
  have c: "IdSpecification (IntV 999999) = Inr \<lparr>cls = IdSpecification_class, value = IntV 999999\<rparr>"
    by (simp add: IdSpecification_def)
  from read_by_id_absent_returns_None [OF a b c] a b c show ?thesis by simp
qed

subsection \<open>C4: construction of IdSpecification\<close>

text \<open>
  C4, as stated, fails: \<open>IdSpecification\<close> built from 0 is a specification, not a
  \<open>ValidationError\<close>, and \<open>IndexFilter_filter\<close> hands the 0 to the session.
\<close>

theorem IdSpecification_zero_counterexample:
  "IdSpecification (IntV 0) = Inr \<lparr>cls = IdSpecification_class, value = IntV 0\<rparr>
   \<and> calls (snd (IndexFilter_filter \<lparr>cls = IdSpecification_class, value = IntV 0\<rparr> empty_storage))
       = [Get (IntV 0)]"
  by (simp add: IdSpecification_def IndexFilter_filter_eq session_close_def record_call_def
      empty_storage_def)

text \<open>
  C4, amended: constructing \<open>IdSpecification\<close> validates nothing. For every value,
  a positive integer or not, the construction succeeds and stores the value as it is, and
  \<open>IndexFilter_filter\<close> passes the stored value to the key fetch of the session.
\<close>

theorem IdSpecification_stores_any_value:
  "IdSpecification v = Inr \<lparr>cls = IdSpecification_class, value = v\<rparr>
   \<and> calls (snd (IndexFilter_filter \<lparr>cls = IdSpecification_class, value = v\<rparr> s))
       = calls s @ [Get v]"
  by (simp add: IdSpecification_def IndexFilter_filter_eq session_close_def record_call_def)

subsection \<open>C5: the row create_user inserts\<close>

text \<open>
  C5: once the password is hashed, the first thing \<open>create_user\<close> does with the session
  is to add one row, and that row has the hash as its password, every other field of
  the input as it was given, and nothing else set.
\<close>

theorem create_user_builds_row:
  assumes "get_password_hash crypt_context (UserCreate.password user) = Inr h"
  shows "\<exists>rest. calls (snd (create_user crypt_context s user)) =
           calls s @
           Add \<lparr>id' = None,
                username = UserCreate.username user,
                email = UserCreate.email user,
                first_name = UserCreate.first_name user,
                middle_name = UserCreate.middle_name user,
                last_name = UserCreate.last_name user,
                password = h,
                gender = UserCreate.gender user,
                birthdate = UserCreate.birthdate user,
                phone_number = UserCreate.phone_number user,
                city = UserCreate.city user,
                country = UserCreate.country user,
                is_active = None,
                is_superuser = UserCreate.is_superuser user,
                created_at = None,
                updated_at = None\<rparr> # rest"
  using calls_create_user [OF assms, of s] by (simp add: User_init_def)

theorem create_user_builds_row_witness:
  "get_password_hash toy_context (UserCreate.password alice) = Inr (toy_hash ''Valid$Pass1'')
   \<and> (\<exists>rest. calls (snd (create_user toy_context bob_storage alice)) =
         [Add \<lparr>id' = None, username = ''alice01'', email = ''alice@example.com'',
               first_name = ''Alice'', middle_name = None, last_name = ''Doe'',
               password = toy_hash ''Valid$Pass1'', gender = None, birthdate = None,
               phone_number = None, city = Some ''Guayaquil'', country = Some ''Ecuador'',
               is_active = None, is_superuser = None, created_at = None,
               updated_at = None\<rparr>] @ rest)"
  using create_user_builds_row [OF hash_alice, of bob_storage] hash_alice
  by (simp add: alice_def bob_storage_def)

subsection \<open>C6: the re-read that finds nothing\<close>

text \<open>
  C6: when the row was added and committed and the re-read by its new id gives
  \<open>None\<close>, \<open>create_user\<close> raises \<open>DatabaseException\<close> with the message
  \<^verbatim>\<open>User could not be created.\<close>, having made one \<open>Add\<close>, one \<open>Commit\<close> and one \<open>Get\<close>
  and nothing after them. The result of \<open>create_user\<close> is an exception or a \<open>User\<close>;
  its type has no \<open>None\<close>.
\<close>

theorem create_user_reread_None:
  assumes "get_password_hash crypt_context (UserCreate.password user) = Inr h"
    and "session_add s (User_init (user\<lparr>UserCreate.password := h\<rparr>)) = (Inr (), s1)"
    and "session_commit s1 = (Inr flushed, s2)"
    and "IdSpecification (id_value (refreshed flushed (User_init (user\<lparr>UserCreate.password := h\<rparr>))))
           = Inr spec"
    and "fst (read_by_id s2 spec) = Inr None"
  shows "fst (create_user crypt_context s user)
           = Inl (DatabaseException ''User could not be created.'')
       \<and> calls (snd (create_user crypt_context s user))
           = calls s @ [Add (User_init (user\<lparr>UserCreate.password := h\<rparr>)), Commit, Get (value spec)]"
proof -
  from assms(5) obtain s3 where rd: "read_by_id s2 spec = (Inr None, s3)"
    by (cases "read_by_id s2 spec") simp
  from assms(4) have v: "value spec = id_value (refreshed flushed (User_init (user\<lparr>UserCreate.password := h\<rparr>)))"
    by (auto simp: IdSpecification_def)
  have "fst (create_user crypt_context s user)
           = Inl (DatabaseException ''User could not be created.'')"
    using assms(1-4) rd by (simp add: create_user_def Let_def)
  moreover have "calls (snd (create_user crypt_context s user))
           = calls s @ [Add (User_init (user\<lparr>UserCreate.password := h\<rparr>)), Commit, Get (value spec)]"
    using calls_create_user [OF assms(1), of s] assms(2,3) v by simp
  ultimately show ?thesis by simp
qed

theorem create_user_reread_None_witness:
  "session_add flaky_storage alice_row
     = (Inr (), \<lparr>rows = [], pending = [alice_row], serial = 1, now = 0,
                 faults = fault_at 2, calls = [Add alice_row]\<rparr>)
   \<and> session_commit \<lparr>rows = [], pending = [alice_row], serial = 1, now = 0,
                      faults = fault_at 2, calls = [Add alice_row]\<rparr>
     = (Inr [alice_stored], \<lparr>rows = [alice_stored], pending = [], serial = 2, now = 0,
                             faults = fault_at 2, calls = [Add alice_row, Commit]\<rparr>)
   \<and> fst (read_by_id \<lparr>rows = [alice_stored], pending = [], serial = 2, now = 0,
                       faults = fault_at 2, calls = [Add alice_row, Commit]\<rparr>
            \<lparr>cls = IdSpecification_class, value = IntV 1\<rparr>) = Inr None
   \<and> fst (create_user toy_context flaky_storage alice)
     = Inl (DatabaseException ''User could not be created.'')
   \<and> calls (snd (create_user toy_context flaky_storage alice))
     = [Add alice_row, Commit, Get (IntV 1)]"
proof -
  let ?s1 = "\<lparr>rows = [], pending = [alice_row], serial = 1, now = 0,
              faults = fault_at 2, calls = [Add alice_row]\<rparr>"
  let ?s2 = "\<lparr>rows = [alice_stored], pending = [], serial = 2, now = 0,
              faults = fault_at 2, calls = [Add alice_row, Commit]\<rparr>"
  let ?spec = "\<lparr>cls = IdSpecification_class, value = IntV 1\<rparr>"
  have add: "session_add flaky_storage alice_row = (Inr (), ?s1)"
    by (simp add: session_add_def fault_now_def flaky_storage_def empty_storage_def fault_at_def
        record_call_def)
  have commit: "session_commit ?s1 = (Inr [alice_stored], ?s2)"
    by (simp add: session_commit_def fault_now_def fault_at_def record_call_def Let_def
        insert_defaults_def violates_unique_def alice_row_def alice_stored_def)
  have spec: "IdSpecification (id_value (refreshed [alice_stored] alice_row)) = Inr ?spec"
    by (simp add: IdSpecification_def id_value_def refreshed_def alice_stored_def)
  have rd: "fst (read_by_id ?s2 ?spec) = Inr None"
    by (simp add: read_by_id_eq fault_now_def fault_at_def)
  have add': "session_add flaky_storage (User_init (alice\<lparr>UserCreate.password := toy_hash ''Valid$Pass1''\<rparr>))
               = (Inr (), ?s1)"
    using add by (simp add: init_alice)
  have spec': "IdSpecification (id_value (refreshed [alice_stored]
                  (User_init (alice\<lparr>UserCreate.password := toy_hash ''Valid$Pass1''\<rparr>)))) = Inr ?spec"
    using spec by (simp add: init_alice)
  from create_user_reread_None [OF hash_alice add' commit spec' rd]
  have "fst (create_user toy_context flaky_storage alice)
          = Inl (DatabaseException ''User could not be created.'')
      \<and> calls (snd (create_user toy_context flaky_storage alice))
          = [Add alice_row, Commit, Get (IntV 1)]"
    by (simp add: init_alice flaky_storage_def empty_storage_def)
  with add commit rd show ?thesis by simp
qed

subsection \<open>C7: the password of the created user\<close>

text \<open>
  C7: for an input within the bounds of the schema and a hashing context that keeps the
  contract of bcrypt, the user that \<open>create_user\<close> returns has a password that is not the
  plaintext of the input and that \<open>verify_password\<close> accepts against that plaintext.
\<close>

theorem create_user_password_hashed:
  assumes "bcrypt_contract crypt_context" and "UserCreate_valid user"
    and "fst (create_user crypt_context s user) = Inr created"
  shows "password created \<noteq> UserCreate.password user
       \<and> verify_password crypt_context (password created) (UserCreate.password user) = Inr True"
proof -
  from assms(3) obtain s' where "create_user crypt_context s user = (Inr created, s')"
    by (cases "create_user crypt_context s user") simp
  from create_user_returns_inserted [OF this] obtain h ser0 where
    h: "get_password_hash crypt_context (UserCreate.password user) = Inr h"
    and c: "created = insert_defaults ser0 (now s) (User_init (user\<lparr>UserCreate.password := h\<rparr>))"
    by blast
  from c have pw: "password created = h"
    by (simp add: insert_defaults_def User_init_def)
  from h have ne: "UserCreate.password user \<noteq> []"
    and hh: "hash crypt_context (UserCreate.password user) = Inr h"
    by (auto simp: get_password_hash_def split: if_splits)
  from assms(1) hh have len: "length h = 60"
    and v: "verify crypt_context (UserCreate.password user) h = Inr True"
    by (auto simp: bcrypt_contract_def)
  from assms(2) have "length (UserCreate.password user) \<le> 14"
    by (simp add: UserCreate_valid_def)
  with len have "h \<noteq> UserCreate.password user" by auto
  moreover from len have "h \<noteq> []" by auto
  ultimately show ?thesis using pw ne v by (simp add: verify_password_def)
qed

theorem create_user_password_hashed_witness:
  "bcrypt_contract toy_context \<and> UserCreate_valid alice
   \<and> fst (create_user toy_context empty_storage alice) = Inr alice_stored
   \<and> password alice_stored \<noteq> ''Valid$Pass1''
   \<and> verify_password toy_context (password alice_stored) ''Valid$Pass1'' = Inr True"
proof -
  have valid: "UserCreate_valid alice"
    by (simp add: UserCreate_valid_def alice_def)
  have created: "fst (create_user toy_context empty_storage alice) = Inr alice_stored"
    by (simp add: create_user_alice)
  from create_user_password_hashed [OF bcrypt_contract_toy valid created]
  have "password alice_stored \<noteq> ''Valid$Pass1''
      \<and> verify_password toy_context (password alice_stored) ''Valid$Pass1'' = Inr True"
    by (simp add: alice_def)
  with bcrypt_contract_toy valid created show ?thesis by simp
qed

subsection \<open>C8: invalid field in UniqueFilter\<close>

text \<open>
  C8: with a \<open>field\<close> other than \<^verbatim>\<open>"username"\<close> and \<^verbatim>\<open>"email"\<close>,
  \<open>UniqueFilter_filter\<close> raises \<open>ValueError\<close> for every specification and every session,
  and the session is not touched.
\<close>

theorem UniqueFilter_filter_invalid_field:
  assumes "field \<noteq> ''username''" and "field \<noteq> ''email''"
  shows "UniqueFilter_filter spec s field
           = (Inl (ValueError ''Invalid field specified for filtering''), s)"
  using assms by (simp add: UniqueFilter_filter_def)

theorem UniqueFilter_filter_invalid_field_witness:
  "''id'' \<noteq> ''username'' \<and> ''id'' \<noteq> ''email''
   \<and> UniqueFilter_filter \<lparr>cls = UsernameSpecification_class, value = StrV ''bob0001''\<rparr>
        bob_storage ''id''
      = (Inl (ValueError ''Invalid field specified for filtering''), bob_storage)"
proof -
  have a: "''id'' \<noteq> ''username''" and b: "''id'' \<noteq> ''email''" by simp_all
  from UniqueFilter_filter_invalid_field [OF a b] a b show ?thesis by simp
qed

subsection \<open>C9: UniqueFilter and the class of the specification\<close>

text \<open>
  C9: \<open>UniqueFilter_filter\<close> never reads the class of the specification. A
  \<open>UsernameSpecification\<close> with the field \<^verbatim>\<open>"email"\<close>, given or by default, runs the
  query that compares the email column with the username it carries.
\<close>

theorem UniqueFilter_filter_ignores_class:
  "UniqueFilter_filter (spec\<lparr>cls := c\<rparr>) s field = UniqueFilter_filter spec s field
   \<and> UsernameSpecification v = Inr \<lparr>cls = UsernameSpecification_class, value = v\<rparr>
   \<and> UniqueFilter_filter \<lparr>cls = UsernameSpecification_class, value = v\<rparr> s ''email''
       = ((case fault_now s of
             Some msg \<Rightarrow> Inl (SQLAlchemyError DriverError msg)
           | None \<Rightarrow> one (filter (\<lambda>u. StrV (email u) = v) (rows s))),
          session_close (record_call s (Scalars (Select_where Email_column v))))
   \<and> UniqueFilter_filter_default \<lparr>cls = UsernameSpecification_class, value = v\<rparr> s
       = UniqueFilter_filter \<lparr>cls = UsernameSpecification_class, value = v\<rparr> s ''email''"
proof (intro conjI)
  show "UniqueFilter_filter (spec\<lparr>cls := c\<rparr>) s field = UniqueFilter_filter spec s field"
    by (simp add: UniqueFilter_filter_def)
  show "UsernameSpecification v = Inr \<lparr>cls = UsernameSpecification_class, value = v\<rparr>"
    by (simp add: UsernameSpecification_def)
  show "UniqueFilter_filter \<lparr>cls = UsernameSpecification_class, value = v\<rparr> s ''email''
       = ((case fault_now s of
             Some msg \<Rightarrow> Inl (SQLAlchemyError DriverError msg)
           | None \<Rightarrow> one (filter (\<lambda>u. StrV (email u) = v) (rows s))),
          session_close (record_call s (Scalars (Select_where Email_column v))))"
    by (cases "fault_now s") (simp_all add: UniqueFilter_filter_valid_eq rows_matching_def)
  show "UniqueFilter_filter_default \<lparr>cls = UsernameSpecification_class, value = v\<rparr> s
       = UniqueFilter_filter \<lparr>cls = UsernameSpecification_class, value = v\<rparr> s ''email''"
    by (simp add: UniqueFilter_filter_default_def)
qed

theorem UniqueFilter_filter_ignores_class_witness:
  "fst (UniqueFilter_filter_default \<lparr>cls = UsernameSpecification_class, value = StrV ''bob@example.com''\<rparr>
          bob_storage) = Inr bob
   \<and> fst (UniqueFilter_filter_default \<lparr>cls = UsernameSpecification_class, value = StrV ''bob0001''\<rparr>
          bob_storage) = Inl (SQLAlchemyError NoResultFound ''No row was found when one was required'')"
  using UniqueFilter_filter_ignores_class
          [where s = bob_storage and v = "StrV ''bob@example.com''"]
        UniqueFilter_filter_ignores_class
          [where s = bob_storage and v = "StrV ''bob0001''"]
  by (simp add: fault_now_def bob_storage_def no_faults_def bob_def)

subsection \<open>C10: a failing hash in create_user\<close>

text \<open>
  C10: \<open>create_user\<close> hashes before it touches the session. When the hashing raises, as
  it does on an empty password, that error is the result and the session is returned as
  it was: nothing added, nothing committed, no call made.
\<close>

theorem create_user_hash_failure:
  assumes "get_password_hash crypt_context (UserCreate.password user) = Inl e"
  shows "create_user crypt_context s user = (Inl e, s)"
  using assms by (simp add: create_user_def)

theorem create_user_hash_failure_witness:
  "get_password_hash toy_context (UserCreate.password (alice\<lparr>UserCreate.password := []\<rparr>))
     = Inl (ValueError ''Password cannot be empty or None'')
   \<and> create_user toy_context bob_storage (alice\<lparr>UserCreate.password := []\<rparr>)
     = (Inl (ValueError ''Password cannot be empty or None''), bob_storage)"
proof -
  have a: "get_password_hash toy_context (UserCreate.password (alice\<lparr>UserCreate.password := []\<rparr>))
             = Inl (ValueError ''Password cannot be empty or None'')"
    by (simp add: get_password_hash_def)
  from create_user_hash_failure [OF a] a show ?thesis by simp
qed

end
